theory Spec2Isabelle
  imports Complex_Main "HOL-Library.Word"
begin

section \<open>Go values the service computes with\<close>

text \<open>
  \<^verbatim>\<open>int64\<close> is a 64-bit word read as two's complement (\<open>sint\<close>). A \<^verbatim>\<open>time.Time\<close> is
  the number of nanoseconds since the Unix epoch, an unbounded integer (the range of
  \<^verbatim>\<open>time.Time\<close> is far wider than that of a \<^verbatim>\<open>time.Duration\<close>). A \<^verbatim>\<open>time.Duration\<close>
  is an \<^verbatim>\<open>int64\<close> count of nanoseconds.
\<close>

type_synonym int64 = "64 word"
type_synonym time = int
type_synonym duration = "64 word"

subsection \<open>float64\<close>

text \<open>
  A finite \<^verbatim>\<open>float64\<close> is \<open>mant * 2 ^ expo\<close> with \<open>\<bar>mant\<bar> < 2 ^ 53\<close> and
  \<open>- 1074 \<le> expo \<le> 971\<close>; the two infinities are what a product can overflow to.
  \<^verbatim>\<open>encoding/json\<close> only ever decodes a number into a finite value. Negative zero is
  not told apart from zero: the program only compares with \<^verbatim>\<open>0\<close> and converts to
  \<^verbatim>\<open>int64\<close>, and both treat the two zeros alike.
\<close>

datatype float64 = Float64 (mant: int) (expo: int) | PosInf | NegInf

fun is_float64 :: "float64 \<Rightarrow> bool" where
  "is_float64 (Float64 m e) = (\<bar>m\<bar> < 2 ^ 53 \<and> - 1074 \<le> e \<and> e \<le> 971)"
| "is_float64 PosInf = True"
| "is_float64 NegInf = True"

text \<open>\<^verbatim>\<open>x == 0\<close> on a \<^verbatim>\<open>float64\<close>.\<close>

fun f64_eq0 :: "float64 \<Rightarrow> bool" where
  "f64_eq0 (Float64 m e) = (m = 0)"
| "f64_eq0 PosInf = False"
| "f64_eq0 NegInf = False"

text \<open>
  \<^verbatim>\<open>x * 10\<close> in \<^verbatim>\<open>float64\<close>: the exact product \<open>10 * mant * 2 ^ expo\<close> rounded to
  53 significant bits, ties to even. \<open>10 * \<bar>mant\<bar> < 2 ^ 57\<close>, so at most four low bits
  are dropped; \<open>mul10_shift\<close> is their number. The exponent only grows, so the
  result is never subnormal-rounded; a result of \<open>2 ^ 1024\<close> or more is an infinity.
\<close>

definition mul10_shift :: "int \<Rightarrow> nat" where
  "mul10_shift M =
     (if M < 2 ^ 53 then 0 else if M < 2 ^ 54 then 1 else if M < 2 ^ 55 then 2
      else if M < 2 ^ 56 then 3 else 4)"

definition round_half_even :: "int \<Rightarrow> nat \<Rightarrow> int" where
  "round_half_even M k =
     (let q = M div 2 ^ k; r = M mod 2 ^ k in
      if 2 * r > 2 ^ k \<or> (2 * r = 2 ^ k \<and> odd q) then q + 1 else q)"

fun f64_mul10 :: "float64 \<Rightarrow> float64" where
  "f64_mul10 (Float64 m e) =
     (let M = 10 * \<bar>m\<bar>;
          k = mul10_shift M;
          q = round_half_even M k;
          e' = e + int k
      in if e' > 971 \<or> (e' = 971 \<and> q = 2 ^ 53)
         then (if m < 0 then NegInf else PosInf)
         else if q = 2 ^ 53 then Float64 (sgn m * 2 ^ 52) (e' + 1)
         else Float64 (sgn m * q) e')"
| "f64_mul10 PosInf = PosInf"
| "f64_mul10 NegInf = NegInf"

text \<open>
  \<^verbatim>\<open>int64(x)\<close>: the fraction is discarded (truncation towards zero). When the
  truncated value does not fit an \<^verbatim>\<open>int64\<close> the Go specification leaves the result to
  the implementation; it is then whatever the parameter \<open>oor\<close> gives.
\<close>

definition f64_trunc :: "int \<Rightarrow> int \<Rightarrow> int" where
  "f64_trunc m e =
     (if e \<ge> 0 then m * 2 ^ nat e else sgn m * (\<bar>m\<bar> div 2 ^ nat (- e)))"

fun fits_int64 :: "float64 \<Rightarrow> bool" where
  "fits_int64 (Float64 m e) = (- (2 ^ 63) \<le> f64_trunc m e \<and> f64_trunc m e < 2 ^ 63)"
| "fits_int64 PosInf = False"
| "fits_int64 NegInf = False"

fun f64_to_int64 :: "(float64 \<Rightarrow> int64) \<Rightarrow> float64 \<Rightarrow> int64" where
  "f64_to_int64 oor (Float64 m e) =
     (if fits_int64 (Float64 m e) then word_of_int (f64_trunc m e) else oor (Float64 m e))"
| "f64_to_int64 oor PosInf = oor PosInf"
| "f64_to_int64 oor NegInf = oor NegInf"

text \<open>The rational number a finite \<^verbatim>\<open>float64\<close> stands for.\<close>

definition dyadic :: "int \<Rightarrow> int \<Rightarrow> rat" where
  "dyadic m e = (if e \<ge> 0 then of_int (m * 2 ^ nat e) else of_int m / 2 ^ nat (- e))"

section \<open>Data model\<close>

text \<open>\<^verbatim>\<open>GoldPrice\<close>, the response model.\<close>

record GoldPrice =
  Name :: string
  Price :: int64
  FetchedAt :: string
  Stale :: bool

text \<open>\<^verbatim>\<open>BrsApiItem\<close> and \<^verbatim>\<open>BrsApiResponse\<close>, the decoded upstream body.\<close>

record BrsApiItem =
  item_Symbol :: string
  item_Name :: string
  item_Price :: float64

record BrsApiResponse =
  Gold :: "BrsApiItem list"

text \<open>
  A row of the table \<^verbatim>\<open>gold_prices\<close>; the primary key \<^verbatim>\<open>symbol\<close> is the key of the
  map that models the table.
\<close>

record row =
  name :: string
  price_rial :: int64
  fetched_at :: string

type_synonym table = "string \<rightharpoonup> row"

text \<open>The package-level variables: the database handle and the poll mutex.\<close>

record state =
  database :: table
  pollMu :: bool

definition staleThreshold :: duration where
  "staleThreshold = 5 * 60000000000"

section \<open>The world outside the process\<close>

text \<open>
  The standard-library functions the program calls and that are not modelled here are
  parameters: the implementation-dependent part of the float conversion,
  \<^verbatim>\<open>Time.Format(time.RFC3339)\<close> and \<^verbatim>\<open>time.Parse(time.RFC3339, s)\<close> (\<open>None\<close> when
  it returns an error).
\<close>

record golib =
  int64_out_of_range :: "float64 \<Rightarrow> int64"
  Format_RFC3339 :: "time \<Rightarrow> string"
  Parse_RFC3339 :: "string \<Rightarrow> time option"

text \<open>
  What one fetch cycle meets: whether \<^verbatim>\<open>http.NewRequest\<close> fails, whether
  \<^verbatim>\<open>client.Do\<close> fails, the status code and the decoded body (\<open>None\<close> when the JSON
  decoder returns an error), the clock, and whether the upsert succeeds.
\<close>

datatype upstream =
    NewRequestError
  | DoError
  | Response nat "BrsApiResponse option"

record world =
  http :: upstream
  clock :: time
  exec_ok :: bool

text \<open>The errors \<^verbatim>\<open>fetchAndCache\<close> returns, one per \<^verbatim>\<open>fmt.Errorf\<close>.\<close>

datatype error =
    CreatingRequestFailed
  | HTTPRequestFailed
  | APIReturnedStatus nat
  | JSONDecodeFailed
  | NotFoundInAPIResponse
  | DBUpsertFailed

text \<open>The effects a cycle has on the outside, in order.\<close>

datatype event =
    LogSkipping
  | HttpGet string
  | DbUpsert string row
  | LogUpdated string int64
  | LogFetchFailed error

section \<open>fetchAndCache\<close>

text \<open>The loop that looks for \<^verbatim>\<open>IR_GOLD_18K\<close> and stops at the first match.\<close>

fun find_gold18k :: "BrsApiItem list \<Rightarrow> BrsApiItem option" where
  "find_gold18k [] = None"
| "find_gold18k (it # rest) =
     (if item_Symbol it = ''IR_GOLD_18K'' then Some it else find_gold18k rest)"

text \<open>The fallback display name, as the UTF-8 bytes of the source literal.\<close>

definition fallback_name :: string where
  "fallback_name =
     [CHR 0xD8, CHR 0xB7, CHR 0xD9, CHR 0x84, CHR 0xD8, CHR 0xA7, CHR 0xDB, CHR 0x8C]
     @ '' 18 '' @
     [CHR 0xD8, CHR 0xB9, CHR 0xDB, CHR 0x8C, CHR 0xD8, CHR 0xA7, CHR 0xD8, CHR 0xB1]"

definition request_url :: "string \<Rightarrow> string" where
  "request_url apiKey = ''https://BrsApi.ir/Api/Market/Gold_Currency.php?key='' @ apiKey"

text \<open>
  The body of \<^verbatim>\<open>fetchAndCache\<close> after the overlap guard, run with the mutex held.
  It returns the error (\<open>None\<close> for \<^verbatim>\<open>nil\<close>), the effects and the state.
\<close>

definition fetch_body ::
  "golib \<Rightarrow> string \<Rightarrow> world \<Rightarrow> state \<Rightarrow> error option \<times> event list \<times> state" where
  "fetch_body lib apiKey w st =
     (let url = request_url apiKey in
      case http w of
        NewRequestError \<Rightarrow> (Some CreatingRequestFailed, [], st)
      | DoError \<Rightarrow> (Some HTTPRequestFailed, [HttpGet url], st)
      | Response code body \<Rightarrow>
          if code \<noteq> 200 then (Some (APIReturnedStatus code), [HttpGet url], st)
          else (case body of
            None \<Rightarrow> (Some JSONDecodeFailed, [HttpGet url], st)
          | Some apiResp \<Rightarrow>
              (case find_gold18k (Gold apiResp) of
                None \<Rightarrow> (Some NotFoundInAPIResponse, [HttpGet url], st)
              | Some gold18k \<Rightarrow>
                  if f64_eq0 (item_Price gold18k)
                  then (Some NotFoundInAPIResponse, [HttpGet url], st)
                  else
                    let priceRial =
                          f64_to_int64 (int64_out_of_range lib) (f64_mul10 (item_Price gold18k));
                        nm = (if item_Name gold18k = [] then fallback_name
                              else item_Name gold18k);
                        now = Format_RFC3339 lib (clock w);
                        r = \<lparr>name = nm, price_rial = priceRial, fetched_at = now\<rparr>
                    in if exec_ok w
                       then (None,
                             [HttpGet url, DbUpsert ''gold_18k'' r, LogUpdated nm priceRial],
                             st\<lparr>database := (database st)(''gold_18k'' \<mapsto> r)\<rparr>)
                       else (Some DBUpsertFailed, [HttpGet url], st))))"

text \<open>
  \<^verbatim>\<open>pollMu.TryLock()\<close>: whether the lock was taken, and the state after.
\<close>

definition TryLock :: "state \<Rightarrow> bool \<times> state" where
  "TryLock st = (if pollMu st then (False, st) else (True, st\<lparr>pollMu := True\<rparr>))"

definition Unlock :: "state \<Rightarrow> state" where
  "Unlock st = st\<lparr>pollMu := False\<rparr>"

definition fetchAndCache ::
  "golib \<Rightarrow> string \<Rightarrow> world \<Rightarrow> state \<Rightarrow> error option \<times> event list \<times> state" where
  "fetchAndCache lib apiKey w st =
     (case TryLock st of
        (False, st0) \<Rightarrow> (None, [LogSkipping], st0)
      | (True, st1) \<Rightarrow>
          (case fetch_body lib apiKey w st1 of
             (err, evs, st2) \<Rightarrow> (err, evs, Unlock st2)))"

section \<open>The poller\<close>

text \<open>
  The background goroutine: one \<^verbatim>\<open>fetchAndCache\<close> per tick, in sequence, each
  error logged and dropped. The list holds what each tick meets, up to cancellation.
\<close>

fun poller :: "golib \<Rightarrow> string \<Rightarrow> world list \<Rightarrow> state \<Rightarrow> event list \<times> state" where
  "poller lib apiKey [] st = ([], st)"
| "poller lib apiKey (w # ws) st =
     (case fetchAndCache lib apiKey w st of
        (err, evs, st1) \<Rightarrow>
          (case poller lib apiKey ws st1 of
             (evs', st2) \<Rightarrow>
               (evs @ (case err of None \<Rightarrow> [] | Some e \<Rightarrow> [LogFetchFailed e]) @ evs', st2)))"

text \<open>A store with no row and no fetch in flight.\<close>

definition idle :: state where
  "idle = \<lparr>database = Map.empty, pollMu = False\<rparr>"

subsection \<open>Ticks and invocations\<close>

text \<open>
  The goroutine that \<^verbatim>\<open>main\<close> starts and its ticker, one occurrence at a time. The
  goroutine is either waiting in \<^verbatim>\<open>select\<close> or inside \<^verbatim>\<open>fetchAndCache\<close>, which it calls
  and waits for. \<open>TickFires\<close>: the interval has passed; the ticker keeps one tick for a
  receiver that is not waiting and drops any further one. \<open>PollerReceives\<close>: the
  waiting goroutine takes the tick and calls \<^verbatim>\<open>fetchAndCache\<close>, whose guard either
  fails, so that the call logs and returns at once, or takes the mutex.
  \<open>FetchReturns w\<close>: the call that took the mutex meets \<open>w\<close>, runs the rest of the body
  with the deferred \<^verbatim>\<open>Unlock\<close> and returns; the goroutine logs the error and waits again.
\<close>

record poller_state =
  shared :: state
  fetching :: bool
  ticker_C :: bool
  effects :: "event list"

datatype occurrence = TickFires | PollerReceives | FetchReturns world

fun occur :: "golib \<Rightarrow> string \<Rightarrow> occurrence \<Rightarrow> poller_state \<Rightarrow> poller_state" where
  "occur lib apiKey TickFires c = c\<lparr>ticker_C := True\<rparr>"
| "occur lib apiKey PollerReceives c =
     (if ticker_C c \<and> \<not> fetching c
      then (case TryLock (shared c) of
              (False, st) \<Rightarrow>
                c\<lparr>shared := st, ticker_C := False, effects := effects c @ [LogSkipping]\<rparr>
            | (True, st) \<Rightarrow>
                c\<lparr>shared := st, ticker_C := False, fetching := True\<rparr>)
      else c)"
| "occur lib apiKey (FetchReturns w) c =
     (if fetching c
      then (case fetch_body lib apiKey w (shared c) of
              (err, evs, st) \<Rightarrow>
                c\<lparr>shared := Unlock st, fetching := False,
                   effects := effects c @ evs @
                     (case err of None \<Rightarrow> [] | Some e \<Rightarrow> [LogFetchFailed e])\<rparr>)
      else c)"

fun occurrences ::
  "golib \<Rightarrow> string \<Rightarrow> occurrence list \<Rightarrow> poller_state \<Rightarrow> poller_state" where
  "occurrences lib apiKey [] c = c"
| "occurrences lib apiKey (x # xs) c = occurrences lib apiKey xs (occur lib apiKey x c)"

section \<open>handleGold18k\<close>

text \<open>
  \<^verbatim>\<open>Time.Sub\<close> saturates at the ends of \<^verbatim>\<open>Duration\<close>; \<^verbatim>\<open>time.Since(t)\<close> is
  \<^verbatim>\<open>time.Now().Sub(t)\<close>. The zero \<^verbatim>\<open>Time\<close>, which \<^verbatim>\<open>time.Parse\<close> returns with an
  error, is January 1 of year 1, 00:00:00 UTC.
\<close>

definition time_Sub :: "time \<Rightarrow> time \<Rightarrow> duration" where
  "time_Sub t u =
     (let d = t - u in
      if d < - (2 ^ 63) then word_of_int (- (2 ^ 63))
      else if 2 ^ 63 \<le> d then word_of_int (2 ^ 63 - 1)
      else word_of_int d)"

definition time_Since :: "time \<Rightarrow> time \<Rightarrow> duration" where
  "time_Since now t = time_Sub now t"

definition zero_Time :: time where
  "zero_Time = - 62135596800 * 1000000000"

text \<open>
  What the handler sends: \<^verbatim>\<open>http.Error(w, msg, code)\<close> is \<open>Plain msg\<close> with that
  status; \<^verbatim>\<open>Encode(resp)\<close> with no status set is \<open>Json resp\<close> with status 200.
\<close>

datatype payload = Plain string | Json GoldPrice

record reply =
  status :: nat
  body :: payload

text \<open>
  The handler reads the clock and the store and writes nothing. \<open>scan_ok\<close> is
  whether the driver answers the query; \<^verbatim>\<open>row.Scan\<close> returns an error when it does
  not, and when there is no row.
\<close>

definition handleGold18k :: "golib \<Rightarrow> time \<Rightarrow> bool \<Rightarrow> state \<Rightarrow> reply" where
  \<open>handleGold18k lib now scan_ok st =
     (case (if scan_ok then database st ''gold_18k'' else None) of
        None \<Rightarrow> \<lparr>status = 503, body = Plain ''{"error":"no cached price available"}''\<rparr>
      | Some r \<Rightarrow>
          let fetchedAt = (case Parse_RFC3339 lib (fetched_at r) of
                             None \<Rightarrow> zero_Time | Some t \<Rightarrow> t);
              stale = (sint staleThreshold < sint (time_Since now fetchedAt));
              resp = \<lparr>Name = name r, Price = price_rial r,
                      FetchedAt = fetched_at r, Stale = stale\<rparr>
          in \<lparr>status = 200, body = Json resp\<rparr>)\<close>

section \<open>Startup\<close>

type_synonym environ = "string \<rightharpoonup> string"

text \<open>\<^verbatim>\<open>os.Getenv\<close> gives the empty string for a variable that is not set.\<close>

definition Getenv :: "environ \<Rightarrow> string \<Rightarrow> string" where
  "Getenv env key = (case env key of None \<Rightarrow> [] | Some v \<Rightarrow> v)"

definition envOrDefault :: "environ \<Rightarrow> string \<Rightarrow> string \<Rightarrow> string" where
  "envOrDefault env key fallback = (let v = Getenv env key in if v \<noteq> [] then v else fallback)"

subsection \<open>strconv.Atoi\<close>

text \<open>
  \<^verbatim>\<open>strconv.Atoi(s)\<close> is \<^verbatim>\<open>ParseInt(s, 10, 0)\<close> with a 64-bit \<^verbatim>\<open>int\<close>, after the
  standard library: an optional sign, then \<^verbatim>\<open>ParseUint\<close>, which reads the bytes from
  the left and returns at the first byte that is not a decimal digit (syntax error,
  value 0) or at the first overflow of 64 bits (range error, largest value), whichever
  comes first.
\<close>

datatype num_error = ErrSyntax | ErrRange

definition is_digit :: "char \<Rightarrow> bool" where
  "is_digit c = (48 \<le> (of_char c :: nat) \<and> (of_char c :: nat) \<le> 57)"

definition maxUint64 :: nat where
  "maxUint64 = 2 ^ 64 - 1"

fun ParseUint_loop :: "nat \<Rightarrow> string \<Rightarrow> nat \<times> num_error option" where
  "ParseUint_loop n [] = (n, None)"
| "ParseUint_loop n (c # cs) =
     (if \<not> is_digit c then (0, Some ErrSyntax)
      else if n \<ge> maxUint64 div 10 + 1 then (maxUint64, Some ErrRange)
      else let n1 = n * 10 + (of_char c - 48) in
           if n1 > maxUint64 then (maxUint64, Some ErrRange)
           else ParseUint_loop n1 cs)"

definition ParseUint :: "string \<Rightarrow> nat \<times> num_error option" where
  "ParseUint s = (if s = [] then (0, Some ErrSyntax) else ParseUint_loop 0 s)"

definition ParseInt :: "string \<Rightarrow> int \<times> num_error option" where
  "ParseInt s0 =
     (case s0 of
        [] \<Rightarrow> (0, Some ErrSyntax)
      | c # cs \<Rightarrow>
          let neg = (c = CHR ''-'');
              s = (if c = CHR ''+'' \<or> c = CHR ''-'' then cs else s0)
          in case ParseUint s of
               (un, err) \<Rightarrow>
                 if err = Some ErrSyntax then (0, Some ErrSyntax)
                 else if \<not> neg \<and> un \<ge> 2 ^ 63 then (2 ^ 63 - 1, Some ErrRange)
                 else if neg \<and> un > 2 ^ 63 then (- (2 ^ 63), Some ErrRange)
                 else (if neg then - int un else int un, None))"

definition Atoi :: "string \<Rightarrow> int \<times> num_error option" where
  "Atoi s = ParseInt s"

text \<open>
  The strings that denote an integer: an optional sign and one or more decimal digits.
\<close>

definition valid_integer :: "string \<Rightarrow> bool" where
  "valid_integer s =
     (case s of
        [] \<Rightarrow> False
      | c # cs \<Rightarrow>
          let ds = (if c = CHR ''+'' \<or> c = CHR ''-'' then cs else s)
          in ds \<noteq> [] \<and> list_all is_digit ds)"

subsection \<open>main, up to the ticker\<close>

definition Second :: duration where
  "Second = 1000000000"

text \<open>
  \<^verbatim>\<open>pollSeconds, _ := strconv.Atoi(...)\<close> keeps the value and drops the error; the
  product with \<^verbatim>\<open>time.Second\<close> wraps as \<^verbatim>\<open>int64\<close>.
\<close>

definition pollInterval :: "environ \<Rightarrow> duration" where
  "pollInterval env =
     (let pollSeconds = fst (Atoi (envOrDefault env ''POLL_INTERVAL'' ''60''))
      in word_of_int pollSeconds * Second)"

text \<open>\<^verbatim>\<open>time.NewTicker(d)\<close> panics when \<^verbatim>\<open>d <= 0\<close>.\<close>

definition NewTicker_panics :: "duration \<Rightarrow> bool" where
  "NewTicker_panics d = (sint d \<le> 0)"

datatype startup =
    Fatal string
  | Panic string
  | Polling duration state

text \<open>
  \<^verbatim>\<open>main\<close> from its first line to \<^verbatim>\<open>time.NewTicker\<close>. \<open>open_ok\<close> and \<open>create_ok\<close>
  are whether \<^verbatim>\<open>sql.Open\<close> and the \<^verbatim>\<open>CREATE TABLE\<close> succeed, \<open>disk\<close> is the table
  as the file at \<^verbatim>\<open>DB_PATH\<close> holds it, \<open>w0\<close> is what the initial fetch meets. The
  port is first used after the ticker; the error of the initial fetch is logged and
  dropped.
\<close>

definition main_startup ::
  "golib \<Rightarrow> environ \<Rightarrow> bool \<Rightarrow> bool \<Rightarrow> table \<Rightarrow> world \<Rightarrow> startup" where
  "main_startup lib env open_ok create_ok disk w0 =
     (let apiKey = Getenv env ''BRS_API_KEY'' in
      if apiKey = [] then Fatal ''BRS_API_KEY environment variable is required''
      else if \<not> open_ok then Fatal ''Failed to open SQLite''
      else if \<not> create_ok then Fatal ''Failed to create table''
      else
        let st = \<lparr>database = disk, pollMu = False\<rparr>;
            st1 = snd (snd (fetchAndCache lib apiKey w0 st))
        in if NewTicker_panics (pollInterval env)
           then Panic ''non-positive interval for NewTicker''
           else Polling (pollInterval env) st1)"

section \<open>Example inputs\<close>

text \<open>
  A library instance for the examples: the conversion of the amd64 port for values
  out of range, and the two time functions on the one timestamp the examples use,
  noon UTC on 26 February 2026.
\<close>

definition example_lib :: golib where
  "example_lib =
     \<lparr>int64_out_of_range = (\<lambda>_. 0x8000000000000000),
      Format_RFC3339 =
        (\<lambda>t. if t = 1772107200000000000 then ''2026-02-26T12:00:00Z'' else []),
      Parse_RFC3339 =
        (\<lambda>s. if s = ''2026-02-26T12:00:00Z'' then Some 1772107200000000000 else None)\<rparr>"

definition noon :: time where
  "noon = 1772107200000000000"

definition gold_item :: "string \<Rightarrow> float64 \<Rightarrow> BrsApiItem" where
  "gold_item nm p = \<lparr>item_Symbol = ''IR_GOLD_18K'', item_Name = nm, item_Price = p\<rparr>"

definition answers :: "BrsApiItem list \<Rightarrow> world" where
  "answers its = \<lparr>http = Response 200 (Some \<lparr>Gold = its\<rparr>), clock = noon, exec_ok = True\<rparr>"

definition old_row :: row where
  "old_row = \<lparr>name = ''gold'', price_rial = 41000000, fetched_at = ''2026-02-26T12:00:00Z''\<rparr>"

definition cached :: state where
  "cached = \<lparr>database = [''gold_18k'' \<mapsto> old_row], pollMu = False\<rparr>"


text \<open>A store whose row holds a timestamp that is not RFC 3339.\<close>

definition garbled :: state where
  "garbled =
     \<lparr>database = [''gold_18k'' \<mapsto>
        \<lparr>name = ''gold'', price_rial = 41000000, fetched_at = ''yesterday''\<rparr>],
      pollMu = False\<rparr>"

section \<open>Properties of fetchAndCache\<close>

subsection \<open>What a cycle returns\<close>

lemma find_gold18k_None_iff:
  "find_gold18k its = None \<longleftrightarrow> (\<forall>it \<in> set its. item_Symbol it \<noteq> ''IR_GOLD_18K'')"
  by (induction its) auto

lemma relock: "\<not> pollMu st \<Longrightarrow> Unlock (st\<lparr>pollMu := True\<rparr>) = st"
  by (simp add: Unlock_def)

lemma relock_upd:
  "\<not> pollMu st \<Longrightarrow> Unlock (st\<lparr>pollMu := True, database := d\<rparr>) = st\<lparr>database := d\<rparr>"
  by (simp add: Unlock_def)

lemma fetchAndCache_unlocked:
  "\<not> pollMu st \<Longrightarrow>
   fetchAndCache lib k w st =
     (case fetch_body lib k w (st\<lparr>pollMu := True\<rparr>) of
        (err, evs, st2) \<Rightarrow> (err, evs, Unlock st2))"
  by (simp add: fetchAndCache_def TryLock_def)

lemma fetchAndCache_locked:
  "pollMu st \<Longrightarrow> fetchAndCache lib k w st = (None, [LogSkipping], st)"
  by (simp add: fetchAndCache_def TryLock_def)

text \<open>An entry that passes the check is converted and written.\<close>

lemma fetch_body_accepted:
  assumes "http w = Response 200 (Some apiResp)"
    and "find_gold18k (Gold apiResp) = Some g"
    and "\<not> f64_eq0 (item_Price g)"
    and "exec_ok w"
  shows "fetch_body lib k w st =
     (None,
      [HttpGet (request_url k),
       DbUpsert ''gold_18k''
         \<lparr>name = (if item_Name g = [] then fallback_name else item_Name g),
            price_rial = f64_to_int64 (int64_out_of_range lib) (f64_mul10 (item_Price g)),
            fetched_at = Format_RFC3339 lib (clock w)\<rparr>,
       LogUpdated (if item_Name g = [] then fallback_name else item_Name g)
         (f64_to_int64 (int64_out_of_range lib) (f64_mul10 (item_Price g)))],
      st\<lparr>database := (database st)(''gold_18k'' \<mapsto>
         \<lparr>name = (if item_Name g = [] then fallback_name else item_Name g),
            price_rial = f64_to_int64 (int64_out_of_range lib) (f64_mul10 (item_Price g)),
            fetched_at = Format_RFC3339 lib (clock w)\<rparr>)\<rparr>)"
  using assms by (simp add: fetch_body_def Let_def)

lemma fetchAndCache_accepted:
  assumes "http w = Response 200 (Some apiResp)"
    and "find_gold18k (Gold apiResp) = Some g"
    and "\<not> f64_eq0 (item_Price g)"
    and "exec_ok w"
    and "\<not> pollMu st"
  shows "snd (snd (fetchAndCache lib k w st)) =
      st\<lparr>database := (database st)(''gold_18k'' \<mapsto>
         \<lparr>name = (if item_Name g = [] then fallback_name else item_Name g),
            price_rial = f64_to_int64 (int64_out_of_range lib) (f64_mul10 (item_Price g)),
            fetched_at = Format_RFC3339 lib (clock w)\<rparr>)\<rparr>"
    and "fst (fetchAndCache lib k w st) = None"
  using assms(5)
  by (simp_all add: fetchAndCache_unlocked fetch_body_accepted [OF assms(1-4)] relock_upd)

text \<open>
  A cycle either fails and leaves the state as it was, or writes one row under
  \<^verbatim>\<open>gold_18k\<close>; which of the two, and which row, does not depend on the state.
\<close>

lemma fetch_body_shape:
  "(\<exists>e evs. \<forall>st. fetch_body lib k w st = (Some e, evs, st)) \<or>
   (\<exists>evs r. \<forall>st. fetch_body lib k w st =
       (None, evs, st\<lparr>database := (database st)(''gold_18k'' \<mapsto> r)\<rparr>))"
proof (cases "http w")
  case NewRequestError
  then show ?thesis by (simp add: fetch_body_def)
next
  case DoError
  then show ?thesis by (simp add: fetch_body_def)
next
  case (Response code body)
  show ?thesis
  proof (cases "code = 200")
    case False
    with Response show ?thesis by (simp add: fetch_body_def)
  next
    case True
    show ?thesis
    proof (cases body)
      case None
      with Response True show ?thesis by (simp add: fetch_body_def)
    next
      case (Some apiResp)
      show ?thesis
      proof (cases "find_gold18k (Gold apiResp)")
        case None
        with Response True Some show ?thesis by (simp add: fetch_body_def)
      next
        case found: (Some g)
        show ?thesis
        proof (cases "f64_eq0 (item_Price g) \<or> \<not> exec_ok w")
          case True
          with Response \<open>code = 200\<close> Some found show ?thesis
            by (auto simp add: fetch_body_def Let_def)
        next
          case False
          with Response \<open>code = 200\<close> Some found
          have "http w = Response 200 (Some apiResp)" "\<not> f64_eq0 (item_Price g)" "exec_ok w"
            by simp_all
          from fetch_body_accepted [OF this(1) found this(2,3)] show ?thesis
            by blast
        qed
      qed
    qed
  qed
qed

lemma fetchAndCache_shape:
  "(\<exists>e evs. \<forall>st. \<not> pollMu st \<longrightarrow> fetchAndCache lib k w st = (Some e, evs, st)) \<or>
   (\<exists>evs r. \<forall>st. \<not> pollMu st \<longrightarrow> fetchAndCache lib k w st =
       (None, evs, st\<lparr>database := (database st)(''gold_18k'' \<mapsto> r)\<rparr>))"
  using fetch_body_shape [of lib k w]
proof (elim disjE exE)
  fix e evs
  assume "\<forall>st. fetch_body lib k w st = (Some e, evs, st)"
  then have "\<forall>st. \<not> pollMu st \<longrightarrow> fetchAndCache lib k w st = (Some e, evs, st)"
    by (simp add: fetchAndCache_unlocked relock)
  then show ?thesis by blast
next
  fix evs r
  assume "\<forall>st. fetch_body lib k w st =
       (None, evs, st\<lparr>database := (database st)(''gold_18k'' \<mapsto> r)\<rparr>)"
  then have "\<forall>st. \<not> pollMu st \<longrightarrow> fetchAndCache lib k w st =
       (None, evs, st\<lparr>database := (database st)(''gold_18k'' \<mapsto> r)\<rparr>)"
    by (simp add: fetchAndCache_unlocked relock_upd)
  then show ?thesis by blast
qed

lemma fetchAndCache_pollMu:
  "pollMu (snd (snd (fetchAndCache lib k w st))) = pollMu st"
proof (cases "pollMu st")
  case True
  then show ?thesis by (simp add: fetchAndCache_locked)
next
  case False
  then show ?thesis using fetchAndCache_shape [of lib k w] by auto
qed

lemma fetchAndCache_failed:
  assumes "fst (fetchAndCache lib k w st) \<noteq> None"
  shows "database (snd (snd (fetchAndCache lib k w st))) = database st"
proof (cases "pollMu st")
  case True
  then show ?thesis by (simp add: fetchAndCache_locked)
next
  case False
  then show ?thesis using fetchAndCache_shape [of lib k w] assms by auto
qed

text \<open>The definitions a concrete cycle unfolds to.\<close>

lemmas cycle_defs =
  fetchAndCache_def fetch_body_def TryLock_def Unlock_def answers_def gold_item_def
  cached_def example_lib_def noon_def old_row_def idle_def
  mul10_shift_def round_half_even_def f64_trunc_def Let_def

subsection \<open>Rejected responses\<close>

text \<open>
  C1, as the code has it. When the cycle runs (the mutex is free) and the decoded
  response has no entry with symbol \<^verbatim>\<open>IR_GOLD_18K\<close>, or its first such entry has a price
  equal to 0, \<^verbatim>\<open>fetchAndCache\<close> returns the error "IR_GOLD_18K not found in API
  response" after the one HTTP request, and the state, the cached row included, is
  what it was.
\<close>

theorem absent_or_zero_rejected:
  assumes "http w = Response 200 (Some apiResp)"
    and "(\<forall>it \<in> set (Gold apiResp). item_Symbol it \<noteq> ''IR_GOLD_18K'') \<or>
         (\<exists>g. find_gold18k (Gold apiResp) = Some g \<and> f64_eq0 (item_Price g))"
    and "\<not> pollMu st"
  shows "fetchAndCache lib k w st = (Some NotFoundInAPIResponse, [HttpGet (request_url k)], st)"
proof -
  from assms(2) have "fetch_body lib k w (st\<lparr>pollMu := True\<rparr>) =
      (Some NotFoundInAPIResponse, [HttpGet (request_url k)], st\<lparr>pollMu := True\<rparr>)"
  proof
    assume "\<forall>it \<in> set (Gold apiResp). item_Symbol it \<noteq> ''IR_GOLD_18K''"
    then have "find_gold18k (Gold apiResp) = None"
      by (simp add: find_gold18k_None_iff)
    then show ?thesis
      by (simp add: fetch_body_def assms(1))
  next
    assume "\<exists>g. find_gold18k (Gold apiResp) = Some g \<and> f64_eq0 (item_Price g)"
    then obtain g where "find_gold18k (Gold apiResp) = Some g" "f64_eq0 (item_Price g)"
      by blast
    then show ?thesis
      by (simp add: fetch_body_def assms(1))
  qed
  then show ?thesis
    using assms(3) by (simp add: fetchAndCache_unlocked relock)
qed

text \<open>
  The theorem on an empty list of entries and on an entry of price 0, over a store
  that holds a row.
\<close>

theorem absent_or_zero_rejected_witness:
  "fetchAndCache example_lib ''key'' (answers []) cached =
     (Some NotFoundInAPIResponse, [HttpGet (request_url ''key'')], cached)
   \<and> fetchAndCache example_lib ''key'' (answers [gold_item ''gold'' (Float64 0 0)]) cached =
     (Some NotFoundInAPIResponse, [HttpGet (request_url ''key'')], cached)"
  using absent_or_zero_rejected [of "answers []" "\<lparr>Gold = []\<rparr>" cached example_lib "''key''"]
    absent_or_zero_rejected [of "answers [gold_item ''gold'' (Float64 0 0)]"
       "\<lparr>Gold = [gold_item ''gold'' (Float64 0 0)]\<rparr>" cached example_lib "''key''"]
  by (simp add: answers_def cached_def gold_item_def)

text \<open>
  Against C1 as stated: a negative price is not rejected. With the entry priced \<open>- 1\<close>
  the cycle returns no error and replaces the cached row by one of price \<open>- 10\<close>.
\<close>

theorem negative_price_written:
  "fst (fetchAndCache example_lib ''key''
          (answers [gold_item ''gold'' (Float64 (- 1) 0)]) cached) = None
   \<and> database (snd (snd (fetchAndCache example_lib ''key''
        (answers [gold_item ''gold'' (Float64 (- 1) 0)]) cached))) ''gold_18k''
     = Some \<lparr>name = ''gold'', price_rial = - 10, fetched_at = ''2026-02-26T12:00:00Z''\<rparr>
   \<and> database cached ''gold_18k''
     = Some \<lparr>name = ''gold'', price_rial = 41000000,
              fetched_at = ''2026-02-26T12:00:00Z''\<rparr>"
  by (simp add: cycle_defs)

subsection \<open>Last known good\<close>

text \<open>
  C2. The poller runs any sequence of cycles from a state with the mutex free. The
  cached row afterwards is the row the last successful cycle of the sequence writes
  (the row that cycle writes into an empty store), and the row from before when no cycle
  succeeds. A cycle that returns an error leaves the whole table as it was, from any
  state.
\<close>

theorem last_known_good:
  assumes "\<not> pollMu st"
  shows "database (snd (poller lib k ws st)) ''gold_18k'' =
     (case filter (\<lambda>w. fst (fetchAndCache lib k w idle) = None) ws of
        [] \<Rightarrow> database st ''gold_18k''
      | g # gs \<Rightarrow>
          database (snd (snd (fetchAndCache lib k (last (g # gs)) idle))) ''gold_18k'')
    \<and> (\<forall>w s. fst (fetchAndCache lib k w s) \<noteq> None \<longrightarrow>
          database (snd (snd (fetchAndCache lib k w s))) = database s)"
proof
  show "\<forall>w s. fst (fetchAndCache lib k w s) \<noteq> None \<longrightarrow>
          database (snd (snd (fetchAndCache lib k w s))) = database s"
    by (simp add: fetchAndCache_failed)
next
  let ?ok = "\<lambda>w. fst (fetchAndCache lib k w idle) = None"
  let ?row = "\<lambda>w. database (snd (snd (fetchAndCache lib k w idle))) ''gold_18k''"
  have idle: "\<not> pollMu idle" by (simp add: idle_def)
  from assms show "database (snd (poller lib k ws st)) ''gold_18k'' =
     (case filter ?ok ws of [] \<Rightarrow> database st ''gold_18k'' | g # gs \<Rightarrow> ?row (last (g # gs)))"
  proof (induction ws arbitrary: st)
    case Nil
    then show ?case by simp
  next
    case (Cons w ws)
    let ?st1 = "snd (snd (fetchAndCache lib k w st))"
    have unlocked: "\<not> pollMu ?st1" using Cons.prems by (simp add: fetchAndCache_pollMu)
    have run: "snd (poller lib k (w # ws) st) = snd (poller lib k ws ?st1)"
      by (simp split: prod.splits)
    have IH: "database (snd (poller lib k (w # ws) st)) ''gold_18k'' =
       (case filter ?ok ws of
          [] \<Rightarrow> database ?st1 ''gold_18k'' | g # gs \<Rightarrow> ?row (last (g # gs)))"
      unfolding run by (rule Cons.IH [OF unlocked])
    from fetchAndCache_shape [of lib k w] show ?case
    proof (elim disjE exE)
      fix e evs
      assume a: "\<forall>st. \<not> pollMu st \<longrightarrow> fetchAndCache lib k w st = (Some e, evs, st)"
      have "\<not> ?ok w" using a idle by simp
      then have flt: "filter ?ok (w # ws) = filter ?ok ws" by simp
      have same: "?st1 = st" using a Cons.prems by simp
      show ?thesis unfolding IH flt same ..
    next
      fix evs r
      assume a: "\<forall>st. \<not> pollMu st \<longrightarrow> fetchAndCache lib k w st =
         (None, evs, st\<lparr>database := (database st)(''gold_18k'' \<mapsto> r)\<rparr>)"
      have ok: "?ok w" using a idle by simp
      then have flt: "filter ?ok (w # ws) = w # filter ?ok ws" by simp
      have r1: "database ?st1 ''gold_18k'' = Some r" using a Cons.prems by simp
      have r0: "?row w = Some r" using a idle by simp
      show ?thesis
      proof (cases "filter ?ok ws")
        case Nil
        show ?thesis unfolding IH flt Nil by (simp add: r1 r0)
      next
        case (Cons g gs)
        show ?thesis unfolding IH flt Cons by simp
      qed
    qed
  qed
qed

text \<open>
  A failure, a success at 4250000 and two more failures (no such entry, then a
  transport error), over a store that holds an older row: the row of the success stays.
\<close>

theorem last_known_good_witness:
  "database (snd (poller example_lib ''key''
      [answers [],
       answers [gold_item ''gold'' (Float64 4250000 0)],
       answers [],
       \<lparr>http = DoError, clock = noon, exec_ok = True\<rparr>] cached)) ''gold_18k''
   = Some \<lparr>name = ''gold'', price_rial = 42500000, fetched_at = ''2026-02-26T12:00:00Z''\<rparr>"
  using last_known_good [of cached example_lib "''key''"
      "[answers [],
        answers [gold_item ''gold'' (Float64 4250000 0)],
        answers [],
        \<lparr>http = DoError, clock = noon, exec_ok = True\<rparr>]"]
  by (simp add: cycle_defs)

subsection \<open>The float64 product and its conversion\<close>

lemma sint_int64_of_int:
  "- (2 ^ 63) \<le> d \<Longrightarrow> d < 2 ^ 63 \<Longrightarrow> sint (word_of_int d :: 64 word) = d"
  by (simp add: sint_sbintrunc' signed_take_bit_int_eq_self)

lemma mul10_shift_bounds:
  "mul10_shift M \<le> 4"
  "mul10_shift M = 0 \<or> 2 ^ (52 + mul10_shift M) \<le> M"
  "M < 2 ^ 57 \<Longrightarrow> M < 2 ^ (53 + mul10_shift M)"
  by (simp_all add: mul10_shift_def)

lemma round_half_even_bounds:
  "M div 2 ^ k \<le> round_half_even M k" "round_half_even M k \<le> M div 2 ^ k + 1"
  by (simp_all add: round_half_even_def Let_def)

lemma round_half_even_exact: "round_half_even M 0 = M"
  by (simp add: round_half_even_def)

lemma div_pow2_ge:
  fixes M :: int
  assumes "2 ^ n \<le> M" "k \<le> n"
  shows "2 ^ (n - k) \<le> M div 2 ^ k"
proof -
  have "(2::int) ^ n = 2 ^ (n - k) * 2 ^ k"
    using assms(2) by (simp flip: power_add)
  then have "(2::int) ^ n div 2 ^ k = 2 ^ (n - k)" by simp
  moreover have "(2::int) ^ n div 2 ^ k \<le> M div 2 ^ k"
    using assms(1) by (intro zdiv_mono1) simp_all
  ultimately show ?thesis by simp
qed

lemma div_ge_1:
  fixes a b :: int
  assumes "b \<le> a" "0 < b"
  shows "1 \<le> a div b"
  using zdiv_mono1 [OF assms] assms(2) by simp

lemma dyadic_tenth:
  assumes "1 \<le> 10 * dyadic m e"
  shows "0 < m" and "0 \<le> e \<or> 2 ^ nat (- e) \<le> 10 * m"
proof -
  show "0 < m"
  proof (cases "0 \<le> e")
    case True
    with assms have "(1::rat) \<le> of_int (10 * (m * 2 ^ nat e))" by (simp add: dyadic_def)
    then have "1 \<le> 10 * (m * 2 ^ nat e)" by (simp only: of_int_1_le_iff)
    then have "0 < m * 2 ^ nat e" by linarith
    then show ?thesis by (simp add: zero_less_mult_iff)
  next
    case False
    with assms have "(1::rat) \<le> 10 * (of_int m / 2 ^ nat (- e))" by (simp add: dyadic_def)
    then have "(0::rat) < of_int m / 2 ^ nat (- e)" by linarith
    then show ?thesis by (simp add: zero_less_divide_iff)
  qed
  show "0 \<le> e \<or> 2 ^ nat (- e) \<le> 10 * m"
  proof (cases "0 \<le> e")
    case True
    then show ?thesis by simp
  next
    case False
    with assms have "(1::rat) \<le> 10 * (of_int m / 2 ^ nat (- e))" by (simp add: dyadic_def)
    then have "(2::rat) ^ nat (- e) \<le> of_int (10 * m)" by (simp add: field_simps)
    then have "(of_int (2 ^ nat (- e)) :: rat) \<le> of_int (10 * m)" by simp
    then have "2 ^ nat (- e) \<le> 10 * m" by (simp only: of_int_le_iff)
    then show ?thesis by simp
  qed
qed

lemma f64_mul10_exact:
  assumes "m \<noteq> 0" "10 * \<bar>m\<bar> < 2 ^ 53" "e \<le> 971"
  shows "f64_mul10 (Float64 m e) = Float64 (10 * m) e"
proof -
  have k: "mul10_shift (10 * \<bar>m\<bar>) = 0" using assms(2) by (simp add: mul10_shift_def)
  have s: "sgn m * (10 * \<bar>m\<bar>) = 10 * m" by (simp add: sgn_if)
  show ?thesis using assms(2,3) by (simp add: k round_half_even_exact s)
qed

lemma f64_trunc_int: "0 \<le> e \<Longrightarrow> f64_trunc m e = m * 2 ^ nat e"
  by (simp add: f64_trunc_def)

lemma f64_trunc_pos:
  assumes "0 < m" "0 \<le> e \<or> 2 ^ nat (- e) \<le> m"
  shows "1 \<le> f64_trunc m e"
proof (cases "0 \<le> e")
  case True
  have "0 < m * 2 ^ nat e" using assms(1) by simp
  then show ?thesis using True by (simp add: f64_trunc_def)
next
  case False
  with assms(2) have "2 ^ nat (- e) \<le> m" by simp
  then have "1 \<le> m div 2 ^ nat (- e)" by (rule div_ge_1) simp
  then show ?thesis using False assms(1) by (simp add: f64_trunc_def)
qed

lemma f64_mul10_ge_1:
  assumes tenth: "1 \<le> 10 * dyadic m e"
    and fin: "\<bar>m\<bar> < 2 ^ 53"
    and res: "f64_mul10 (Float64 m e) = Float64 m' e'"
  shows "1 \<le> f64_trunc m' e'"
proof -
  from dyadic_tenth [OF tenth] have pos: "0 < m" and low: "0 \<le> e \<or> 2 ^ nat (- e) \<le> 10 * m"
    by simp_all
  define M where "M = 10 * \<bar>m\<bar>"
  define k where "k = mul10_shift M"
  define q where "q = round_half_even M k"
  have M: "M = 10 * m" "10 \<le> M" "M < 2 ^ 57" using pos fin by (simp_all add: M_def)
  have k4: "k \<le> 4" and kM: "k = 0 \<or> 2 ^ (52 + k) \<le> M" and Mk: "M < 2 ^ (53 + k)"
    using mul10_shift_bounds [of M] M(3) by (simp_all add: k_def)
  have qlow: "M div 2 ^ k \<le> q" using round_half_even_bounds [of M k] by (simp add: q_def)
  have q1: "1 \<le> M div 2 ^ k"
  proof (rule div_ge_1)
    from kM show "2 ^ k \<le> M"
    proof
      assume "k = 0" then show ?thesis using M(2) by simp
    next
      assume a: "2 ^ (52 + k) \<le> M"
      have "(2::int) ^ k \<le> 2 ^ (52 + k)" by (rule power_increasing) simp_all
      with a show ?thesis by linarith
    qed
  qed simp
  have qpos: "0 < q" using q1 qlow by linarith
  have conv: "f64_mul10 (Float64 m e) =
      (if e + int k > 971 \<or> (e + int k = 971 \<and> q = 2 ^ 53) then PosInf
       else if q = 2 ^ 53 then Float64 (2 ^ 52) (e + int k + 1)
       else Float64 q (e + int k))"
    using pos unfolding q_def k_def M_def by (simp add: Let_def)
  have deep: "2 ^ (nat (- e) - k) \<le> q" if "e + int k < 0"
  proof -
    from that low have "2 ^ nat (- e) \<le> M" by (simp add: M(1))
    moreover from that have "k \<le> nat (- e)" by linarith
    ultimately have "2 ^ (nat (- e) - k) \<le> M div 2 ^ k" by (rule div_pow2_ge)
    with qlow show ?thesis by linarith
  qed
  show ?thesis
  proof (cases "q = 2 ^ 53")
    case True
    with res conv have m': "m' = 2 ^ 52" "e' = e + int k + 1"
      by (simp_all split: if_splits)
    show ?thesis unfolding m'
    proof (rule f64_trunc_pos)
      show "0 \<le> e + int k + 1 \<or> (2::int) ^ nat (- (e + int k + 1)) \<le> 2 ^ 52"
      proof (cases "0 \<le> e + int k + 1")
        case False
        then have neg: "e + int k < 0" by linarith
        with low have "2 ^ nat (- e) \<le> M" by (simp add: M(1))
        with Mk have "(2::int) ^ nat (- e) < 2 ^ (53 + k)" by linarith
        then have "nat (- e) < 53 + k" by (simp add: power_strict_increasing_iff)
        then have "nat (- (e + int k + 1)) \<le> 52" using False by linarith
        then have "(2::int) ^ nat (- (e + int k + 1)) \<le> 2 ^ 52"
          by (intro power_increasing) simp_all
        then show ?thesis by simp
      qed simp
    qed simp
  next
    case False
    with res conv have m': "m' = q" "e' = e + int k"
      by (simp_all split: if_splits)
    show ?thesis unfolding m'
    proof (rule f64_trunc_pos [OF qpos])
      show "0 \<le> e + int k \<or> 2 ^ nat (- (e + int k)) \<le> q"
      proof (cases "0 \<le> e + int k")
        case False
        then have neg: "e + int k < 0" by linarith
        then have "nat (- (e + int k)) = nat (- e) - k" by linarith
        with deep [OF neg] show ?thesis by simp
      qed simp
    qed
  qed
qed

subsection \<open>The row a successful cycle writes\<close>

lemma written_row:
  assumes "http w = Response 200 (Some apiResp)"
    and "find_gold18k (Gold apiResp) = Some g"
    and "\<not> f64_eq0 (item_Price g)"
    and "exec_ok w"
    and "\<not> pollMu st"
  shows "database (snd (snd (fetchAndCache lib k w st))) ''gold_18k'' =
     Some \<lparr>name = (if item_Name g = [] then fallback_name else item_Name g),
            price_rial = f64_to_int64 (int64_out_of_range lib) (f64_mul10 (item_Price g)),
            fetched_at = Format_RFC3339 lib (clock w)\<rparr>"
  by (simp add: fetchAndCache_accepted(1) [OF assms])

text \<open>
  C3, as the code has it. The check only refuses a price equal to 0. When the accepted
  price is at least one tenth (\<open>1 \<le> 10 * price\<close>) and the \<^verbatim>\<open>float64\<close> product
  \<^verbatim>\<open>price * 10\<close> is within the range of \<^verbatim>\<open>int64\<close>, the stored \<^verbatim>\<open>price_rial\<close> is
  strictly positive.
\<close>

theorem accepted_price_stored_positive:
  assumes "http w = Response 200 (Some apiResp)"
    and "find_gold18k (Gold apiResp) = Some g"
    and "item_Price g = Float64 m e"
    and "is_float64 (Float64 m e)"
    and "1 \<le> 10 * dyadic m e"
    and "fits_int64 (f64_mul10 (Float64 m e))"
    and "exec_ok w"
    and "\<not> pollMu st"
  shows "\<exists>r. database (snd (snd (fetchAndCache lib k w st))) ''gold_18k'' = Some r
             \<and> 0 < sint (price_rial r)"
proof -
  from dyadic_tenth(1) [OF assms(5)] have "\<not> f64_eq0 (item_Price g)"
    by (simp add: assms(3))
  note row = written_row [OF assms(1,2) this assms(7,8), of lib k]
  from assms(6) obtain m' e' where res: "f64_mul10 (Float64 m e) = Float64 m' e'"
    by (cases "f64_mul10 (Float64 m e)") simp_all
  from assms(4) have "\<bar>m\<bar> < 2 ^ 53" by simp
  from f64_mul10_ge_1 [OF assms(5) this res] have low: "1 \<le> f64_trunc m' e'" .
  from assms(6) res have rng: "- (2 ^ 63) \<le> f64_trunc m' e'" "f64_trunc m' e' < 2 ^ 63"
    by simp_all
  have "sint (f64_to_int64 (int64_out_of_range lib) (f64_mul10 (item_Price g)))
        = f64_trunc m' e'"
    unfolding assms(3) res using rng by (simp add: sint_int64_of_int)
  with low row show ?thesis by simp
qed

text \<open>The theorem at the price 0.125, which is stored as 1.\<close>

theorem accepted_price_stored_positive_witness:
  "database (snd (snd (fetchAndCache example_lib ''key''
       (answers [gold_item ''gold'' (Float64 1 (- 3))]) cached))) ''gold_18k''
     = Some \<lparr>name = ''gold'', price_rial = 1, fetched_at = ''2026-02-26T12:00:00Z''\<rparr>"
  using accepted_price_stored_positive [of "answers [gold_item ''gold'' (Float64 1 (- 3))]"
      "\<lparr>Gold = [gold_item ''gold'' (Float64 1 (- 3))]\<rparr>"
      "gold_item ''gold'' (Float64 1 (- 3))" 1 "- 3" cached example_lib "''key''"]
  by (simp add: cycle_defs dyadic_def)

text \<open>
  Against C3 as stated: two accepted prices whose stored value is not positive.
  \<open>- 1\<close> is stored as \<open>- 10\<close>, and 0.0625 is stored as 0. Both cycles return no
  error.
\<close>

theorem accepted_price_not_positive:
  "fst (fetchAndCache example_lib ''key''
          (answers [gold_item ''gold'' (Float64 (- 1) 0)]) idle) = None
   \<and> map_option (\<lambda>r. sint (price_rial r))
       (database (snd (snd (fetchAndCache example_lib ''key''
          (answers [gold_item ''gold'' (Float64 (- 1) 0)]) idle))) ''gold_18k'') = Some (- 10)
   \<and> fst (fetchAndCache example_lib ''key''
          (answers [gold_item ''gold'' (Float64 1 (- 4))]) idle) = None
   \<and> map_option (\<lambda>r. sint (price_rial r))
       (database (snd (snd (fetchAndCache example_lib ''key''
          (answers [gold_item ''gold'' (Float64 1 (- 4))]) idle))) ''gold_18k'') = Some 0"
  by (simp add: cycle_defs)

lemma small_in_int64:
  fixes x :: int
  assumes "10 * \<bar>x\<bar> < 2 ^ 53"
  shows "- (2 ^ 63) \<le> 10 * x \<and> 10 * x < 2 ^ 63"
proof -
  have "(2::int) ^ 53 \<le> 2 ^ 63" by simp
  with assms have "10 * \<bar>x\<bar> < 2 ^ 63" by linarith
  then show ?thesis by linarith
qed

text \<open>
  C6. For an accepted price that is a whole number \<open>m * 2 ^ e\<close> with ten times its
  magnitude below \<open>2 ^ 53\<close>, the \<^verbatim>\<open>float64\<close> product is exact and the stored
  \<^verbatim>\<open>price_rial\<close> is exactly ten times the price; 4250000 is stored as 42500000.
\<close>

theorem toman_to_rial:
  assumes "http w = Response 200 (Some apiResp)"
    and "find_gold18k (Gold apiResp) = Some g"
    and "item_Price g = Float64 m e"
    and "m \<noteq> 0"
    and "0 \<le> e"
    and "10 * \<bar>m * 2 ^ nat e\<bar> < 2 ^ 53"
    and "exec_ok w"
    and "\<not> pollMu st"
  shows "\<exists>r. database (snd (snd (fetchAndCache lib k w st))) ''gold_18k'' = Some r
             \<and> sint (price_rial r) = 10 * (m * 2 ^ nat e)"
proof -
  have "\<not> f64_eq0 (item_Price g)" using assms(4) by (simp add: assms(3))
  note row = written_row [OF assms(1,2) this assms(7,8), of lib k]
  have abs: "\<bar>m * 2 ^ nat e\<bar> = \<bar>m\<bar> * 2 ^ nat e" by (simp add: abs_mult)
  have m1: "1 \<le> \<bar>m\<bar>" using assms(4) by linarith
  have p1: "(1::int) \<le> 2 ^ nat e" by simp
  have "\<bar>m\<bar> * 1 \<le> \<bar>m\<bar> * 2 ^ nat e" by (rule mult_left_mono [OF p1]) simp
  then have small: "10 * \<bar>m\<bar> < 2 ^ 53" using assms(6) abs by linarith
  have "1 * 2 ^ nat e \<le> \<bar>m\<bar> * 2 ^ nat e" by (rule mult_right_mono [OF m1]) simp
  then have lt: "(2::int) ^ nat e < 2 ^ 53" using assms(6) abs by linarith
  have "nat e < 53" by (rule power_less_imp_less_exp [OF _ lt]) simp
  then have e: "e \<le> 971" by linarith
  have res: "f64_mul10 (Float64 m e) = Float64 (10 * m) e"
    by (rule f64_mul10_exact [OF assms(4) small e])
  have tr: "f64_trunc (10 * m) e = 10 * (m * 2 ^ nat e)"
    using assms(5) by (simp add: f64_trunc_int)
  have rng: "- (2 ^ 63) \<le> 10 * (m * 2 ^ nat e)" "10 * (m * 2 ^ nat e) < 2 ^ 63"
    using small_in_int64 [OF assms(6)] by simp_all
  define x where "x = 10 * (m * 2 ^ nat e)"
  have "f64_to_int64 (int64_out_of_range lib) (f64_mul10 (item_Price g)) = word_of_int x"
    unfolding assms(3) res using rng by (simp add: tr flip: x_def)
  moreover have "sint (word_of_int x :: 64 word) = x"
    using rng unfolding x_def [symmetric] by (rule sint_int64_of_int)
  ultimately have "sint (f64_to_int64 (int64_out_of_range lib) (f64_mul10 (item_Price g))) = x"
    by simp
  with row show ?thesis unfolding x_def by simp
qed

text \<open>The theorem at the price 4250000.\<close>

theorem toman_to_rial_witness:
  "database (snd (snd (fetchAndCache example_lib ''key''
       (answers [gold_item ''gold'' (Float64 4250000 0)]) cached))) ''gold_18k''
     = Some \<lparr>name = ''gold'', price_rial = 42500000, fetched_at = ''2026-02-26T12:00:00Z''\<rparr>"
  using toman_to_rial [of "answers [gold_item ''gold'' (Float64 4250000 0)]"
      "\<lparr>Gold = [gold_item ''gold'' (Float64 4250000 0)]\<rparr>"
      "gold_item ''gold'' (Float64 4250000 0)" 4250000 0 cached example_lib "''key''"]
  by (simp add: cycle_defs)

text \<open>
  C8. For an entry that passes the check, the name written is the fallback display
  name (the UTF-8 bytes of the source literal) when the upstream name is empty, and the
  upstream name unchanged otherwise.
\<close>

theorem fallback_display_name:
  assumes "http w = Response 200 (Some apiResp)"
    and "find_gold18k (Gold apiResp) = Some g"
    and "\<not> f64_eq0 (item_Price g)"
    and "exec_ok w"
    and "\<not> pollMu st"
  shows "map_option name (database (snd (snd (fetchAndCache lib k w st))) ''gold_18k'') =
     Some (if item_Name g = []
           then [CHR 0xD8, CHR 0xB7, CHR 0xD9, CHR 0x84, CHR 0xD8, CHR 0xA7, CHR 0xDB, CHR 0x8C,
                 CHR 0x20, CHR 0x31, CHR 0x38, CHR 0x20,
                 CHR 0xD8, CHR 0xB9, CHR 0xDB, CHR 0x8C, CHR 0xD8, CHR 0xA7, CHR 0xD8, CHR 0xB1]
           else item_Name g)"
  by (simp add: written_row [OF assms] fallback_name_def)

text \<open>The theorem at an empty name and at the name \<^verbatim>\<open>Gold 18K\<close>.\<close>

theorem fallback_display_name_witness:
  "map_option name (database (snd (snd (fetchAndCache example_lib ''key''
       (answers [gold_item [] (Float64 4250000 0)]) cached))) ''gold_18k'') = Some fallback_name
   \<and> map_option name (database (snd (snd (fetchAndCache example_lib ''key''
       (answers [gold_item ''Gold 18K'' (Float64 4250000 0)]) cached))) ''gold_18k'')
      = Some ''Gold 18K''"
  using fallback_display_name [of "answers [gold_item [] (Float64 4250000 0)]"
      "\<lparr>Gold = [gold_item [] (Float64 4250000 0)]\<rparr>"
      "gold_item [] (Float64 4250000 0)" cached example_lib "''key''"]
    fallback_display_name [of "answers [gold_item ''Gold 18K'' (Float64 4250000 0)]"
      "\<lparr>Gold = [gold_item ''Gold 18K'' (Float64 4250000 0)]\<rparr>"
      "gold_item ''Gold 18K'' (Float64 4250000 0)" cached example_lib "''key''"]
  by (simp add: answers_def gold_item_def cached_def fallback_name_def)

subsection \<open>The overlap guard and the ticker\<close>


lemma fetch_body_pollMu: "pollMu (snd (snd (fetch_body lib k w st))) = pollMu st"
  using fetch_body_shape [of lib k w] by auto

text \<open>
  Receiving a tick and returning from the call is one \<^verbatim>\<open>fetchAndCache\<close>.
\<close>

lemma receive_then_return:
  assumes "ticker_C c" and "\<not> fetching c" and "\<not> pollMu (shared c)"
  shows "shared (occurrences lib k [PollerReceives, FetchReturns w] c) =
         snd (snd (fetchAndCache lib k w (shared c)))"
proof -
  obtain err evs st where fb: "fetch_body lib k w ((shared c)\<lparr>pollMu := True\<rparr>) = (err, evs, st)"
    by (cases "fetch_body lib k w ((shared c)\<lparr>pollMu := True\<rparr>)")
  show ?thesis
    using assms fb by (simp add: fetchAndCache_def TryLock_def)
qed









section \<open>Properties of handleGold18k\<close>

lemma sint_staleThreshold: "sint staleThreshold = 5 * 60 * 1000000000"
  by (simp add: staleThreshold_def)

lemma sint_time_Sub:
  "sint (time_Sub now t) =
     (if now - t < - (2 ^ 63) then - (2 ^ 63)
      else if 2 ^ 63 \<le> now - t then 2 ^ 63 - 1 else now - t)"
proof -
  define d where "d = now - t"
  have "sint (if d < - (2 ^ 63) then word_of_int (- (2 ^ 63)) :: 64 word
              else if 2 ^ 63 \<le> d then word_of_int (2 ^ 63 - 1)
              else word_of_int d) =
     (if d < - (2 ^ 63) then - (2 ^ 63) else if 2 ^ 63 \<le> d then 2 ^ 63 - 1 else d)"
    by (simp add: sint_int64_of_int)
  then show ?thesis
    unfolding time_Sub_def Let_def d_def .
qed

lemma stale_iff:
  "sint staleThreshold < sint (time_Since now t) \<longleftrightarrow> 5 * 60 * 1000000000 < now - t"
  by (simp add: time_Since_def sint_time_Sub sint_staleThreshold)

text \<open>
  C4. For a stored row whose \<^verbatim>\<open>fetched_at\<close> parses to the time \<open>t\<close>, a read at the
  time \<open>now\<close> answers 200 with the row's fields and \<open>stale = (now - t > 5 minutes)\<close>.
  The flag is a function of the clock and the stored timestamp only: the handler takes
  the state and returns a reply, the row has no staleness column.
\<close>

theorem staleness_at_read_time:
  assumes "database st ''gold_18k'' = Some r"
    and "Parse_RFC3339 lib (fetched_at r) = Some t"
  shows "handleGold18k lib now True st =
     \<lparr>status = 200,
        body = Json \<lparr>Name = name r, Price = price_rial r, FetchedAt = fetched_at r,
                     Stale = (5 * 60 * 1000000000 < now - t)\<rparr>\<rparr>"
  using assms by (simp add: handleGold18k_def Let_def stale_iff)

text \<open>
  Two reads of the same store, five minutes and five minutes and a nanosecond after
  the stored timestamp: not stale, then stale.
\<close>

theorem staleness_at_read_time_witness:
  "handleGold18k example_lib (noon + 5 * 60 * 1000000000) True cached =
     \<lparr>status = 200,
        body = Json \<lparr>Name = ''gold'', Price = 41000000,
                     FetchedAt = ''2026-02-26T12:00:00Z'', Stale = False\<rparr>\<rparr>
   \<and> handleGold18k example_lib (noon + 5 * 60 * 1000000000 + 1) True cached =
     \<lparr>status = 200,
        body = Json \<lparr>Name = ''gold'', Price = 41000000,
                     FetchedAt = ''2026-02-26T12:00:00Z'', Stale = True\<rparr>\<rparr>"
  using staleness_at_read_time [of cached old_row example_lib noon "noon + 5 * 60 * 1000000000"]
    staleness_at_read_time [of cached old_row example_lib noon "noon + 5 * 60 * 1000000000 + 1"]
  by (simp add: cached_def old_row_def example_lib_def noon_def)

text \<open>
  C5, as the code has it. With no row under \<^verbatim>\<open>gold_18k\<close>, or with a query that the
  driver does not answer, the handler calls \<^verbatim>\<open>http.Error\<close> with the message
  \<^verbatim>\<open>{"error":"no cached price available"}\<close> and status 503, whatever the clock. With a row
  and a query that is answered it sends 200 with the fields \<^verbatim>\<open>name\<close>, \<^verbatim>\<open>price\<close>,
  \<^verbatim>\<open>fetchedAt\<close> and \<^verbatim>\<open>stale\<close>, the first three from the row.
\<close>

theorem cached_price_or_unavailable:
  \<open>(database st ''gold_18k'' = None \<or> \<not> scan_ok \<longrightarrow>
      handleGold18k lib now scan_ok st =
        \<lparr>status = 503, body = Plain ''{"error":"no cached price available"}''\<rparr>)
   \<and> (database st ''gold_18k'' = Some r \<and> scan_ok \<longrightarrow>
      (\<exists>stale. handleGold18k lib now scan_ok st =
        \<lparr>status = 200,
           body = Json \<lparr>Name = name r, Price = price_rial r, FetchedAt = fetched_at r,
                        Stale = stale\<rparr>\<rparr>))\<close>
  by (auto simp add: handleGold18k_def Let_def)

text \<open>
  The theorem at the empty store, at a store with a row and a failing query, and at
  the same store with the query answered.
\<close>

theorem cached_price_or_unavailable_witness:
  \<open>handleGold18k example_lib noon True idle =
        \<lparr>status = 503, body = Plain ''{"error":"no cached price available"}''\<rparr>
   \<and> handleGold18k example_lib noon False cached =
        \<lparr>status = 503, body = Plain ''{"error":"no cached price available"}''\<rparr>
   \<and> (\<exists>stale. handleGold18k example_lib noon True cached =
        \<lparr>status = 200,
           body = Json \<lparr>Name = ''gold'', Price = 41000000,
                        FetchedAt = ''2026-02-26T12:00:00Z'', Stale = stale\<rparr>\<rparr>)\<close>
  using cached_price_or_unavailable [of idle True example_lib noon old_row]
    cached_price_or_unavailable [of cached False example_lib noon old_row]
    cached_price_or_unavailable [of cached True example_lib noon old_row]
  by (simp add: idle_def cached_def old_row_def)

text \<open>
  Against C5 as stated: the store holds a row, the query fails, and the reply is the
  503.
\<close>

theorem row_present_but_unavailable:
  \<open>database cached ''gold_18k'' =
      Some \<lparr>name = ''gold'', price_rial = 41000000, fetched_at = ''2026-02-26T12:00:00Z''\<rparr>
   \<and> handleGold18k example_lib noon False cached =
        \<lparr>status = 503, body = Plain ''{"error":"no cached price available"}''\<rparr>\<close>
  by (simp add: handleGold18k_def cached_def old_row_def)

text \<open>
  C10. For a stored row whose \<^verbatim>\<open>fetched_at\<close> does not parse, the handler still
  answers 200 with the row's fields; the flag is computed against the zero time:
  \<open>stale = (now - zero_Time > 5 minutes)\<close>.
\<close>

theorem unparsable_timestamp_served:
  assumes "database st ''gold_18k'' = Some r"
    and "Parse_RFC3339 lib (fetched_at r) = None"
  shows "handleGold18k lib now True st =
     \<lparr>status = 200,
        body = Json \<lparr>Name = name r, Price = price_rial r, FetchedAt = fetched_at r,
                     Stale = (5 * 60 * 1000000000 < now - zero_Time)\<rparr>\<rparr>"
  using assms by (simp add: handleGold18k_def Let_def stale_iff)

text \<open>The theorem at a row whose timestamp is the word \<^verbatim>\<open>yesterday\<close>, read at noon.\<close>

theorem unparsable_timestamp_served_witness:
  "handleGold18k example_lib noon True garbled =
     \<lparr>status = 200,
        body = Json \<lparr>Name = ''gold'', Price = 41000000, FetchedAt = ''yesterday'',
                     Stale = True\<rparr>\<rparr>"
  using unparsable_timestamp_served [of garbled
     "\<lparr>name = ''gold'', price_rial = 41000000, fetched_at = ''yesterday''\<rparr>" example_lib noon]
  by (simp add: garbled_def example_lib_def noon_def zero_Time_def)

section \<open>Properties of the startup\<close>

text \<open>The definitions a concrete call of \<^verbatim>\<open>Atoi\<close> unfolds to.\<close>

lemmas atoi_defs = Atoi_def ParseInt_def ParseUint_def is_digit_def maxUint64_def Let_def

lemma ParseInt_Cons:
  "ParseInt (c # cs) =
     (case ParseUint (if c = CHR ''+'' \<or> c = CHR ''-'' then cs else c # cs) of
        (un, err) \<Rightarrow>
          if err = Some ErrSyntax then (0, Some ErrSyntax)
          else if c \<noteq> CHR ''-'' \<and> un \<ge> 2 ^ 63 then (2 ^ 63 - 1, Some ErrRange)
          else if c = CHR ''-'' \<and> un > 2 ^ 63 then (- (2 ^ 63), Some ErrRange)
          else (if c = CHR ''-'' then - int un else int un, None))"
  by (simp add: ParseInt_def Let_def)

lemma Atoi_syntax_zero: "snd (Atoi s) = Some ErrSyntax \<Longrightarrow> fst (Atoi s) = 0"
proof (cases s)
  case Nil
  then show ?thesis by (simp add: Atoi_def ParseInt_def)
next
  case (Cons c cs)
  define s' where "s' = (if c = CHR ''+'' \<or> c = CHR ''-'' then cs else c # cs)"
  obtain un err where pu: "ParseUint s' = (un, err)"
    by (cases "ParseUint s'")
  assume "snd (Atoi s) = Some ErrSyntax"
  then show ?thesis
    unfolding Atoi_def Cons ParseInt_Cons s'_def [symmetric] pu
    by (simp split: if_splits)
qed

text \<open>
  In a string of at most 19 bytes the digits before the first byte that is not one
  cannot overflow 64 bits, so the syntax error is what \<^verbatim>\<open>ParseUint\<close> returns.
\<close>

lemma ParseUint_loop_syntax:
  assumes "\<exists>c \<in> set cs. \<not> is_digit c"
    and "n < 10 ^ a"
    and "a + length cs \<le> 19"
  shows "ParseUint_loop n cs = (0, Some ErrSyntax)"
  using assms
proof (induction cs arbitrary: n a)
  case Nil
  then show ?case by simp
next
  case (Cons c cs)
  show ?case
  proof (cases "is_digit c")
    case False
    then show ?thesis by simp
  next
    case True
    with Cons.prems(1) have bad: "\<exists>c \<in> set cs. \<not> is_digit c" by simp
    from Cons.prems(3) have a18: "a \<le> 18" by simp
    have "(10::nat) ^ a \<le> 10 ^ 18" using a18 by (intro power_increasing) simp_all
    with Cons.prems(2) have n18: "n < 10 ^ 18" by linarith
    then have small: "\<not> n \<ge> maxUint64 div 10 + 1" by (simp add: maxUint64_def)
    from True have d: "(of_char c :: nat) - 48 \<le> 9" unfolding is_digit_def by linarith
    have "n * 10 + (of_char c - 48) \<le> (10 ^ a - 1) * 10 + 9"
      using Cons.prems(2) d by (intro add_mono mult_right_mono) simp_all
    also have "\<dots> < 10 ^ Suc a" by (simp add: algebra_simps)
    finally have n1: "n * 10 + (of_char c - 48) < 10 ^ Suc a" .
    have "(10::nat) ^ Suc a \<le> 10 ^ 19" using a18 by (intro power_increasing) simp_all
    with n1 have "\<not> n * 10 + (of_char c - 48) > maxUint64" by (simp add: maxUint64_def)
    with True small have "ParseUint_loop n (c # cs) = ParseUint_loop (n * 10 + (of_char c - 48)) cs"
      by (simp add: Let_def)
    also have "\<dots> = (0, Some ErrSyntax)"
      by (rule Cons.IH [OF bad n1]) (use Cons.prems(3) in simp)
    finally show ?thesis .
  qed
qed

lemma Atoi_short_invalid:
  assumes "\<not> valid_integer s" and "length s \<le> 19"
  shows "Atoi s = (0, Some ErrSyntax)"
proof (cases s)
  case Nil
  then show ?thesis by (simp add: Atoi_def ParseInt_def)
next
  case (Cons c cs)
  define s' where "s' = (if c = CHR ''+'' \<or> c = CHR ''-'' then cs else c # cs)"
  from assms(1) Cons have bad: "s' = [] \<or> (\<exists>d \<in> set s'. \<not> is_digit d)"
    by (simp add: valid_integer_def Let_def s'_def list_all_iff)
  have len: "0 + length s' \<le> 19" using assms(2) Cons by (simp add: s'_def)
  have "ParseUint s' = (0, Some ErrSyntax)"
  proof (cases "s' = []")
    case True
    then show ?thesis by (simp add: ParseUint_def)
  next
    case False
    with bad have "\<exists>d \<in> set s'. \<not> is_digit d" by simp
    from ParseUint_loop_syntax [OF this _ len] False show ?thesis
      by (simp add: ParseUint_def)
  qed
  then show ?thesis
    unfolding Atoi_def Cons ParseInt_Cons s'_def [symmetric] by simp
qed

text \<open>
  C9, as the code has it. \<^verbatim>\<open>POLL_INTERVAL\<close> is set to a string that is not empty, and
  \<^verbatim>\<open>BRS_API_KEY\<close> is set, so that \<^verbatim>\<open>main\<close> goes on. When \<^verbatim>\<open>strconv.Atoi\<close> reports a
  syntax error on the string, the error is dropped, the poll interval is 0, and with the
  store opened \<^verbatim>\<open>main\<close> panics in \<^verbatim>\<open>time.NewTicker\<close>, whatever the initial fetch does.
  \<^verbatim>\<open>Atoi\<close> reports a syntax error on every string of at most 19 bytes that is not an
  optional sign followed by decimal digits.
\<close>

theorem invalid_poll_interval:
  assumes "env ''POLL_INTERVAL'' = Some s"
    and "s \<noteq> []"
    and "Getenv env ''BRS_API_KEY'' \<noteq> []"
  shows "(snd (Atoi s) = Some ErrSyntax \<longrightarrow>
            pollInterval env = 0 \<and>
            main_startup lib env True True disk w0 =
              Panic ''non-positive interval for NewTicker'')
       \<and> (\<not> valid_integer s \<and> length s \<le> 19 \<longrightarrow> snd (Atoi s) = Some ErrSyntax)"
proof (intro conjI impI)
  assume "\<not> valid_integer s \<and> length s \<le> 19"
  then show "snd (Atoi s) = Some ErrSyntax" by (simp add: Atoi_short_invalid)
next
  assume syn: "snd (Atoi s) = Some ErrSyntax"
  have "envOrDefault env ''POLL_INTERVAL'' ''60'' = s"
    using assms(1,2) by (simp add: envOrDefault_def Getenv_def)
  then show zero: "pollInterval env = 0"
    by (simp add: pollInterval_def Atoi_syntax_zero [OF syn])
  then show "main_startup lib env True True disk w0 = Panic ''non-positive interval for NewTicker''"
    using assms(3) by (simp add: main_startup_def NewTicker_panics_def Let_def)
qed

text \<open>The theorem at \<^verbatim>\<open>POLL_INTERVAL=1m\<close>.\<close>

theorem invalid_poll_interval_witness:
  "pollInterval [''POLL_INTERVAL'' \<mapsto> ''1m'', ''BRS_API_KEY'' \<mapsto> ''key''] = 0
   \<and> main_startup example_lib [''POLL_INTERVAL'' \<mapsto> ''1m'', ''BRS_API_KEY'' \<mapsto> ''key'']
        True True Map.empty (answers []) = Panic ''non-positive interval for NewTicker''
   \<and> snd (Atoi ''1m'') = Some ErrSyntax"
  using invalid_poll_interval [of "[''POLL_INTERVAL'' \<mapsto> ''1m'', ''BRS_API_KEY'' \<mapsto> ''key'']"
      "''1m''" example_lib Map.empty "answers []"]
  by (simp add: Getenv_def valid_integer_def is_digit_def)

text \<open>
  Against C9 as stated: two strings that are not integers and do not give an interval
  of 0. The empty string
  is replaced by the default: the interval is 60 seconds and the ticker starts. On twenty
  nines and a letter \<^verbatim>\<open>Atoi\<close> meets the overflow first and returns the largest
  \<^verbatim>\<open>int\<close>; the product with \<^verbatim>\<open>time.Second\<close> wraps to minus one second.
\<close>

theorem poll_interval_not_zero:
  "\<not> valid_integer []
   \<and> pollInterval [''POLL_INTERVAL'' \<mapsto> [], ''BRS_API_KEY'' \<mapsto> ''key''] = 60 * Second
   \<and> \<not> NewTicker_panics (pollInterval [''POLL_INTERVAL'' \<mapsto> [], ''BRS_API_KEY'' \<mapsto> ''key''])
   \<and> \<not> valid_integer ''99999999999999999999x''
   \<and> sint (pollInterval [''POLL_INTERVAL'' \<mapsto> ''99999999999999999999x'',
                          ''BRS_API_KEY'' \<mapsto> ''key'']) = - 1000000000"
  by (simp add: valid_integer_def pollInterval_def envOrDefault_def Getenv_def atoi_defs
      Second_def NewTicker_panics_def)

end
